theory Spec2Isabelle
  imports Complex_Main "HOL-Library.Sublist"
begin

section \<open>Errors and results\<close>

text \<open>
  The utilities of \<^verbatim>\<open>utils.py\<close> raise no exception of their own: every failure is
  raised by the Python interpreter, by the tensor library or by pandas. Each of them is a
  value here, and a function that can fail returns \<open>error + 'a\<close>.
\<close>

datatype error =
    AttributeError string \<comment> \<open>Python: the object has no attribute of this name\<close>
  | UnboundLocalError     \<comment> \<open>Python: a local variable read before assignment\<close>
  | IndexError            \<comment> \<open>an axis a tensor does not have; \<^verbatim>\<open>iloc[0]\<close> on an empty series\<close>

definition ebind :: "error + 'a \<Rightarrow> ('a \<Rightarrow> error + 'b) \<Rightarrow> error + 'b" where
  "ebind m f = (case m of Inl e \<Rightarrow> Inl e | Inr x \<Rightarrow> f x)"

section \<open>The module \<open>torch\<close>\<close>

text \<open>
  \<^verbatim>\<open>utils.py\<close> imports PyTorch (\<^verbatim>\<open>import torch\<close>) and reaches the library through the
  attributes of that module. Of the names the file looks up in \<open>torch\<close>, the module has
  \<open>sqrt\<close>, \<open>argmin\<close>, \<open>stack\<close>, \<open>range\<close>, \<open>save\<close> and \<open>load\<close>; it has no \<open>repeat\<close>,
  \<open>reduce_sum\<close>, \<open>to_int32\<close> or \<open>gather_nd\<close> (these are names of TensorFlow). The lookup
  of a name the module does not have raises \<^verbatim>\<open>AttributeError\<close>.
\<close>

datatype torch_fn = Sqrt | Argmin | Stack | Range | Save | Load

definition torch_names :: "(string \<times> torch_fn) list" where
  "torch_names =
     [(''sqrt'', Sqrt), (''argmin'', Argmin), (''stack'', Stack), (''range'', Range),
      (''save'', Save), (''load'', Load)]"

definition torch_getattr :: "string \<Rightarrow> error + torch_fn" where
  "torch_getattr name =
     (case map_of torch_names name of
        None \<Rightarrow> Inl (AttributeError name)
      | Some f \<Rightarrow> Inr f)"

text \<open>
  The values \<open>projection\<close> handles: a dense tensor, given by its shape and its elements
  in row-major order, an integer, a list, and the two entries \<^verbatim>\<open>None\<close> and \<^verbatim>\<open>:\<close> of an
  index. The type of the elements of a tensor is left open.
\<close>

datatype 'a pyval =
    TensorV "nat list" "'a list"
  | IntV int
  | ListV "'a pyval list"
  | NoneV
  | SliceAll

text \<open>
  \<^verbatim>\<open>t.size(k)\<close>: the extent of the tensor along axis \<open>k\<close>, counted from the end when \<open>k\<close>
  is negative; an axis the tensor does not have is refused.
\<close>

definition size_at :: "'a pyval \<Rightarrow> int \<Rightarrow> error + 'a pyval" where
  "size_at t k =
     (case t of
        TensorV sh xs \<Rightarrow>
          (let r = int (length sh); j = (if k < 0 then k + r else k)
           in if 0 \<le> j \<and> j < r then Inr (IntV (int (sh ! nat j))) else Inl IndexError)
      | _ \<Rightarrow> Inl (AttributeError ''size''))"

text \<open>
  What the library does once a call is made is not part of the repository: the functions
  of the module (called with positional and keyword arguments), the indexing of a tensor,
  the subtraction of two tensors and the power of a tensor are parameters of the model.
\<close>

record 'a tensor_lib =
  lib_call :: "torch_fn \<Rightarrow> 'a pyval list \<Rightarrow> (string \<times> 'a pyval) list \<Rightarrow> error + 'a pyval"
  lib_getitem :: "'a pyval \<Rightarrow> 'a pyval list \<Rightarrow> error + 'a pyval"
  lib_sub :: "'a pyval \<Rightarrow> 'a pyval \<Rightarrow> error + 'a pyval"
  lib_pow :: "'a pyval \<Rightarrow> 'a pyval \<Rightarrow> error + 'a pyval"



section \<open>\<open>projection\<close>\<close>

text \<open>
  \<^verbatim>\<open>
  def projection(Vs, Vt):
      VsN = Vs.size(0)
      VtN = Vt.size(0)
      Vt_rep = torch.repeat(Vt[None, :, :], [VsN, 1, 1])  # [VsN,VtN,3]
      Vs_rep = torch.repeat(Vs[:, None, :], [1, VtN, 1])  # [VsN,VtN,3]
      diff = Vt_rep - Vs_rep
      dist = torch.sqrt(torch.reduce_sum(diff**2, axis=[2]))  # [VsN,VtN]
      idx = torch.to_int32(torch.argmin(dist, axis=1))
      proj = torch.gather_nd(Vt_rep, torch.stack([torch.range(VsN), idx], axis=1))
      minDist = torch.gather_nd(dist, torch.stack([torch.range(VsN), idx], axis=1))
      return proj, minDist
  \<close>
  One group of bindings per statement of the source, in the order in which Python
  evaluates it: the function of a call is looked up before its arguments are evaluated,
  and the arguments from left to right. The first failure ends the function.
\<close>

definition projection ::
  "'a tensor_lib \<Rightarrow> 'a pyval \<Rightarrow> 'a pyval \<Rightarrow> error + ('a pyval \<times> 'a pyval)" where
  "projection L Vs Vt =
     ebind (size_at Vs 0) (\<lambda>VsN.
     ebind (size_at Vt 0) (\<lambda>VtN.
     ebind (torch_getattr ''repeat'') (\<lambda>f.
     ebind (lib_getitem L Vt [NoneV, SliceAll, SliceAll]) (\<lambda>a.
     ebind (lib_call L f [a, ListV [VsN, IntV 1, IntV 1]] []) (\<lambda>Vt_rep.
     ebind (torch_getattr ''repeat'') (\<lambda>f.
     ebind (lib_getitem L Vs [SliceAll, NoneV, SliceAll]) (\<lambda>a.
     ebind (lib_call L f [a, ListV [IntV 1, VtN, IntV 1]] []) (\<lambda>Vs_rep.
     ebind (lib_sub L Vt_rep Vs_rep) (\<lambda>diff.
     ebind (torch_getattr ''sqrt'') (\<lambda>f_sqrt.
     ebind (torch_getattr ''reduce_sum'') (\<lambda>f_sum.
     ebind (lib_pow L diff (IntV 2)) (\<lambda>sq.
     ebind (lib_call L f_sum [sq] [(''axis'', ListV [IntV 2])]) (\<lambda>s.
     ebind (lib_call L f_sqrt [s] []) (\<lambda>dist.
     ebind (torch_getattr ''to_int32'') (\<lambda>f_cast.
     ebind (torch_getattr ''argmin'') (\<lambda>f_argmin.
     ebind (lib_call L f_argmin [dist] [(''axis'', IntV 1)]) (\<lambda>a.
     ebind (lib_call L f_cast [a] []) (\<lambda>idx.
     ebind (torch_getattr ''gather_nd'') (\<lambda>f_gather.
     ebind (torch_getattr ''stack'') (\<lambda>f_stack.
     ebind (torch_getattr ''range'') (\<lambda>f_range.
     ebind (lib_call L f_range [VsN] []) (\<lambda>r.
     ebind (lib_call L f_stack [ListV [r, idx]] [(''axis'', IntV 1)]) (\<lambda>ix.
     ebind (lib_call L f_gather [Vt_rep, ix] []) (\<lambda>proj.
     ebind (torch_getattr ''gather_nd'') (\<lambda>f_gather.
     ebind (torch_getattr ''stack'') (\<lambda>f_stack.
     ebind (torch_getattr ''range'') (\<lambda>f_range.
     ebind (lib_call L f_range [VsN] []) (\<lambda>r.
     ebind (lib_call L f_stack [ListV [r, idx]] [(''axis'', IntV 1)]) (\<lambda>ix.
     ebind (lib_call L f_gather [dist, ix] []) (\<lambda>minDist.
     Inr (proj, minDist)))))))))))))))))))))))))))))))"

section \<open>Optimizer and scheduler construction\<close>

text \<open>
  The configuration object, with the fields the two functions read. A string is a list
  of characters; \<open>lower\<close> is Python's \<^verbatim>\<open>str.lower\<close> on ASCII letters, and \<open>py_in x y\<close>
  is Python's \<^verbatim>\<open>x in y\<close> on strings: \<open>x\<close> occurs in \<open>y\<close> as a contiguous substring.
\<close>

fun lower_char :: "char \<Rightarrow> char" where
  "lower_char (Char b0 b1 b2 b3 b4 b5 b6 b7) =
     (let n = (of_char (Char b0 b1 b2 b3 b4 b5 b6 b7) :: nat) in
      if 65 \<le> n \<and> n \<le> 90 then Char b0 b1 b2 b3 b4 True b6 b7
      else Char b0 b1 b2 b3 b4 b5 b6 b7)"

definition lower :: "string \<Rightarrow> string" where
  "lower s = map lower_char s"

fun py_in :: "string \<Rightarrow> string \<Rightarrow> bool" where
  "py_in x [] = (x = [])"
| "py_in x (c # cs) = (prefix x (c # cs) \<or> py_in x cs)"

record config =
  optim :: string
  lr :: real
  wd :: real
  trueWD :: "real option"
  lrSched :: "string option"
  lrStep :: int
  lrGamma :: real
  TMax :: int
  etaMin :: real

record ('p, 'w) model =
  parameters :: 'p
  state_dict :: 'w

text \<open>
  The optimizers and schedulers of the library are values that record the arguments of
  their constructors: the parameters, the learning rate and the weight decay of an
  optimizer (\<^verbatim>\<open>optim.SGD(params, lr)\<close> has weight decay 0), the optimizer and the
  settings of a scheduler.
\<close>

datatype 'p optimizer = Adam 'p real real | SGD 'p real real

datatype 'p scheduler =
    StepLR "'p optimizer" int real
  | ExponentialLR "'p optimizer" real
  | CosineAnnealingLR "'p optimizer" int real

text \<open>
  A local variable of a Python function is unbound until a branch assigns it; reading an
  unbound local raises \<^verbatim>\<open>UnboundLocalError\<close>.
\<close>

definition read_local :: "'a option \<Rightarrow> error + 'a" where
  "read_local v = (case v of None \<Rightarrow> Inl UnboundLocalError | Some x \<Rightarrow> Inr x)"

text \<open>
  \<^verbatim>\<open>
  def make_optimizer(cfg, model):
      params = model.parameters()
      if cfg.trueWD is not None:
          statement = "Use true (decouple with L2 regularization) weight decay "
          if cfg.optim.lower() in 'adam':
              statement += "with Adam optimizer (AdamW)"
              opt = optim.Adam(params, cfg.lr, weight_decay=0)
          elif cfg.optim.lower() in 'sgd':
              statement += "with SGD optimizer (SGDW)"
              opt = optim.SGD(params, cfg.lr)
          statement += f"\nLearning rate: {cfg.lr:.2e}, weight decay: {cfg.trueWD:.2e}"
      else:
          statement = "Use default (coupled with L2 regularization) weight decay "
          if cfg.optim.lower() in 'adam':
              statement += "with Adam optimizer (Adam)"
              opt = optim.Adam(params, cfg.lr, weight_decay=cfg.wd)
          elif cfg.optim.lower() in 'sgd':
              statement += "with SGD optimizer (SGD)"
              opt = optim.SGD(params, cfg.lr, weight_decay=cfg.wd)
          statement += f"\nLearning rate: {cfg.lr:.2e}, weight decay: {cfg.wd:.2e}"
      print(statement)
      return opt
  \<close>
  The function takes the lines printed so far and returns them with its own; \<open>fmt\<close> is
  the formatting of a float by \<^verbatim>\<open>:.2e\<close>. The statement is printed before \<open>opt\<close> is
  read.
\<close>

definition make_optimizer ::
  "(real \<Rightarrow> string) \<Rightarrow> config \<Rightarrow> ('p, 'w) model \<Rightarrow> string list \<Rightarrow>
     (error + 'p optimizer) \<times> string list" where
  "make_optimizer fmt cfg model out =
     (let params = parameters model;
          (statement, opt) =
            (case trueWD cfg of
               Some twd \<Rightarrow>
                 let statement = ''Use true (decouple with L2 regularization) weight decay '';
                     (statement, opt) =
                       (if py_in (lower (optim cfg)) ''adam'' then
                          (statement @ ''with Adam optimizer (AdamW)'',
                           Some (Adam params (lr cfg) 0))
                        else if py_in (lower (optim cfg)) ''sgd'' then
                          (statement @ ''with SGD optimizer (SGDW)'',
                           Some (SGD params (lr cfg) 0))
                        else (statement, None))
                 in (statement @ [CHR 0x0A] @ ''Learning rate: '' @ fmt (lr cfg)
                       @ '', weight decay: '' @ fmt twd, opt)
             | None \<Rightarrow>
                 let statement = ''Use default (coupled with L2 regularization) weight decay '';
                     (statement, opt) =
                       (if py_in (lower (optim cfg)) ''adam'' then
                          (statement @ ''with Adam optimizer (Adam)'',
                           Some (Adam params (lr cfg) (wd cfg)))
                        else if py_in (lower (optim cfg)) ''sgd'' then
                          (statement @ ''with SGD optimizer (SGD)'',
                           Some (SGD params (lr cfg) (wd cfg)))
                        else (statement, None))
                 in (statement @ [CHR 0x0A] @ ''Learning rate: '' @ fmt (lr cfg)
                       @ '', weight decay: '' @ fmt (wd cfg), opt))
      in (read_local opt, out @ [statement]))"

text \<open>
  \<^verbatim>\<open>
  def make_lr_scheduler(cfg, optimizer):
      if not cfg.lrSched:
          return None
      elif cfg.lrSched.lower() in 'step':
          statement = f'Using StepLR with gamma: {cfg.lrGamma:.2e} and step size: {cfg.lrStep}'
          sched = lr_scheduler.StepLR(optimizer, cfg.lrStep, cfg.lrGamma)
      elif cfg.lrSched.lower() in 'exponential':
          statement = f'Using ExponentialLR with gamma: {cfg.lrGamma:.2e}'
          sched = lr_scheduler.ExponentialLR(optimizer, cfg.lrGamma)
      elif cfg.lrSched.lower() in 'cosine':
          statement = f'Using CosineAnnealingLR with T_max: {cfg.TMax}'
          sched = lr_scheduler.CosineAnnealingLR(optimizer, cfg.TMax, cfg.etaMin)
      print(statement)
      return sched
  \<close>
  \<^verbatim>\<open>not cfg.lrSched\<close> holds for \<^verbatim>\<open>None\<close> and for the empty string. Both \<open>statement\<close>
  and \<open>sched\<close> are assigned in a branch only, and \<open>statement\<close> is read first; \<open>str\<close>
  is the formatting of an integer.
\<close>

definition make_lr_scheduler ::
  "(real \<Rightarrow> string) \<Rightarrow> (int \<Rightarrow> string) \<Rightarrow> config \<Rightarrow> 'p optimizer \<Rightarrow> string list \<Rightarrow>
     (error + 'p scheduler option) \<times> string list" where
  "make_lr_scheduler fmt str cfg optimizer out =
     (case lrSched cfg of
        None \<Rightarrow> (Inr None, out)
      | Some name \<Rightarrow>
          if name = [] then (Inr None, out)
          else
            let (statement, sched) =
              (if py_in (lower name) ''step'' then
                 (Some (''Using StepLR with gamma: '' @ fmt (lrGamma cfg)
                          @ '' and step size: '' @ str (lrStep cfg)),
                  Some (StepLR optimizer (lrStep cfg) (lrGamma cfg)))
               else if py_in (lower name) ''exponential'' then
                 (Some (''Using ExponentialLR with gamma: '' @ fmt (lrGamma cfg)),
                  Some (ExponentialLR optimizer (lrGamma cfg)))
               else if py_in (lower name) ''cosine'' then
                 (Some (''Using CosineAnnealingLR with T_max: '' @ str (TMax cfg)),
                  Some (CosineAnnealingLR optimizer (TMax cfg) (etaMin cfg)))
               else (None, None))
            in (case read_local statement of
                  Inl e \<Rightarrow> (Inl e, out)
                | Inr st \<Rightarrow>
                    (case read_local sched of
                       Inl e \<Rightarrow> (Inl e, out @ [st])
                     | Inr s \<Rightarrow> (Inr (Some s), out @ [st]))))"

section \<open>Saving the best model\<close>

text \<open>
  A validation loss is a floating-point number: not-a-number, or a value of a linear
  order. The comparison \<^verbatim>\<open><=\<close> is false as soon as one side is not a number.
\<close>

datatype 'a float = NaN | Num 'a

fun float_le :: "'a::linorder float \<Rightarrow> 'a float \<Rightarrow> bool" where
  "float_le (Num a) (Num b) = (a \<le> b)"
| "float_le _ _ = False"

text \<open>
  \<^verbatim>\<open>Series.min()\<close> of pandas skips the entries that are not a number, and is not a
  number when no entry is left.
\<close>

fun dropna :: "'a float list \<Rightarrow> 'a list" where
  "dropna [] = []"
| "dropna (NaN # xs) = dropna xs"
| "dropna (Num a # xs) = a # dropna xs"

definition series_min :: "'a::linorder float list \<Rightarrow> 'a float" where
  "series_min xs = (case dropna xs of [] \<Rightarrow> NaN | a # as \<Rightarrow> Num (fold min as a))"

text \<open>
  \<^verbatim>\<open>
  def save_best_model(model_path, model, df_hist):
      if df_hist['val_loss'].tail(1).iloc[0] <= df_hist['val_loss'].min():
          torch.save(model.state_dict(), f"{model_path}/best.pth")
  \<close>
  The history is a data frame, of which the function reads the column \<open>val_loss\<close>;
  \<^verbatim>\<open>tail(1).iloc[0]\<close> is its last entry and fails on an empty column. What
  \<^verbatim>\<open>torch.save\<close> does to the file system, and whether it succeeds, is a parameter of the
  model: \<open>save\<close> takes the file system, the content and the path.
\<close>

record 'a df_hist =
  val_loss :: "'a float list"

definition save_best_model ::
  "('fs \<Rightarrow> 'w \<Rightarrow> string \<Rightarrow> error + 'fs) \<Rightarrow> string \<Rightarrow> ('p, 'w) model \<Rightarrow>
     ('a::linorder) df_hist \<Rightarrow> 'fs \<Rightarrow> error + 'fs" where
  "save_best_model save model_path model h fs =
     (case val_loss h of
        [] \<Rightarrow> Inl IndexError
      | _ \<Rightarrow>
          if float_le (last (val_loss h)) (series_min (val_loss h))
          then ebind (torch_getattr ''save'')
                 (\<lambda>f. save fs (state_dict model) (model_path @ ''/best.pth''))
          else Inr fs)"

text \<open>A file system in which every write succeeds: the list of the files written.\<close>

definition write_file :: "(string \<times> 'w) list \<Rightarrow> 'w \<Rightarrow> string \<Rightarrow> error + (string \<times> 'w) list" where
  "write_file fs content path = Inr (fs @ [(path, content)])"

section \<open>Auxiliary facts\<close>

lemma ebind_Inl: "ebind (Inl e) f = Inl e"
  by (simp add: ebind_def)

lemma ebind_Inr: "ebind (Inr x) f = f x"
  by (simp add: ebind_def)

lemma torch_has_no_repeat: "torch_getattr ''repeat'' = Inl (AttributeError ''repeat'')"
  by (simp add: torch_getattr_def torch_names_def)

lemma torch_has_save: "torch_getattr ''save'' = Inr Save"
  by (simp add: torch_getattr_def torch_names_def)

lemma size_at_tensor: "size_at (TensorV (n # sh) xs) 0 = Inr (IntV (int n))"
  by (simp add: size_at_def)

text \<open>
  Whatever the library does, \<open>projection\<close> does not get past its third statement: on
  tensors of rank 1 or more it raises \<^verbatim>\<open>AttributeError\<close> for \<open>repeat\<close>.
\<close>

lemma projection_raises:
  "projection L (TensorV (n # sh) xs) (TensorV (m # sh') ys) = Inl (AttributeError ''repeat'')"
  by (simp add: projection_def size_at_tensor ebind_Inr ebind_Inl torch_has_no_repeat)


lemma set_dropna: "set (dropna xs) = {a. Num a \<in> set xs}"
  by (induction xs rule: dropna.induct) auto

lemma series_min_Num:
  "Num a \<in> set xs \<Longrightarrow> series_min xs = Num (Min {b. Num b \<in> set xs})"
proof -
  assume a: "Num a \<in> set xs"
  then have "a \<in> set (dropna xs)" by (simp add: set_dropna)
  then obtain b bs where bs: "dropna xs = b # bs" by (cases "dropna xs") auto
  have "fold min bs b = Min (set (b # bs))" by (rule Min.set_eq_fold [symmetric])
  also have "set (b # bs) = {c. Num c \<in> set xs}" using bs set_dropna [of xs] by simp
  finally show ?thesis by (simp add: series_min_def bs)
qed

lemma float_le_series_min:
  assumes "xs \<noteq> []" "last xs = Num a"
  shows "float_le (last xs) (series_min xs) \<longleftrightarrow> (\<forall>b. Num b \<in> set (butlast xs) \<longrightarrow> a \<le> b)"
proof -
  let ?S = "{b. Num b \<in> set xs}"
  have mem: "Num a \<in> set xs" using assms by (metis last_in_set)
  have fin: "finite ?S" using set_dropna [of xs] by (metis List.finite_set)
  have ne: "?S \<noteq> {}" using mem by blast
  have "set xs = insert (Num a) (set (butlast xs))"
    using assms by (metis append_butlast_last_id list.simps(15) rotate1.simps(2) set_rotate1)
  then have split: "(\<forall>b\<in>?S. a \<le> b) \<longleftrightarrow> (\<forall>b. Num b \<in> set (butlast xs) \<longrightarrow> a \<le> b)"
    by auto
  have "float_le (last xs) (series_min xs) \<longleftrightarrow> a \<le> Min ?S"
    using assms(2) series_min_Num [OF mem] by simp
  also have "\<dots> \<longleftrightarrow> (\<forall>b\<in>?S. a \<le> b)" using fin ne by (rule Min_ge_iff)
  finally show ?thesis using split by simp
qed

section \<open>The claims about \<open>projection\<close>\<close>

text \<open>
  The claims C1 to C5 and C10 describe the nearest-point projection that the function is
  written to compute (its docstring says so, and its comments give the shapes of the
  intermediate tensors). The code does not compute it: the third statement calls
  \<open>torch.repeat\<close>, which the module does not have, and so do the later statements with
  \<open>reduce_sum\<close>, \<open>to_int32\<close> and \<open>gather_nd\<close>. Each theorem runs the code on an input of
  its claim, for any behaviour of the library.
\<close>

text \<open>
  Claim C1: for every non-empty source set and non-empty target set of the same
  dimension, \<open>projection\<close> returns for each source point a nearest target point and its
  Euclidean distance. On the scenario of the specification, the sources \<open>(0,0,0)\<close>,
  \<open>(5,5,5)\<close> and the targets \<open>(0,0,1)\<close>, \<open>(1,1,1)\<close>, \<open>(10,10,10)\<close>, the code returns no
  match: it raises \<^verbatim>\<open>AttributeError\<close>.
\<close>

theorem projection_raises_on_spec_scenario:
  "projection L (TensorV [2, 3] [0, 0, 0, 5, 5, 5 :: real])
     (TensorV [3, 3] [0, 0, 1, 1, 1, 1, 10, 10, 10])
   = Inl (AttributeError ''repeat'')"
  by (rule projection_raises)

text \<open>
  Claim C2: of several equidistant nearest target points, \<open>projection\<close> selects the one
  with the lowest index; for the source \<open>(0,0,0)\<close> and the targets \<open>(1,0,0)\<close>,
  \<open>(-1,0,0)\<close> the match is \<open>(1,0,0)\<close> with distance 1. On this very input the code selects
  nothing: it raises \<^verbatim>\<open>AttributeError\<close> before any distance is computed.
\<close>

theorem projection_raises_on_tie_scenario:
  "projection L (TensorV [1, 3] [0, 0, 0 :: real]) (TensorV [2, 3] [1, 0, 0, - 1, 0, 0])
   = Inl (AttributeError ''repeat'')"
  by (rule projection_raises)

text \<open>
  Claim C3: for every source set, the empty one included, and every non-empty target set
  of the same dimension, \<open>projection\<close> succeeds and returns as many matches and distances
  as there are source points. On the empty source set in 3-space and two target points
  the code does not return empty sequences: it raises \<^verbatim>\<open>AttributeError\<close>.
\<close>

theorem projection_raises_on_empty_source:
  "projection L (TensorV [0, 3] ([] :: real list)) (TensorV [2, 3] [1, 0, 0, - 1, 0, 0])
   = Inl (AttributeError ''repeat'')"
  by (rule projection_raises)

text \<open>
  Claim C4: for every non-empty source set, \<open>projection\<close> with an empty target set fails
  with the error of the empty target. On one source point and the empty target set of
  the same dimension the code fails, but with the \<^verbatim>\<open>AttributeError\<close> it raises on every
  input, before the target is looked at.
\<close>

theorem projection_raises_on_empty_target:
  "projection L (TensorV [1, 3] [0, 0, 0 :: real]) (TensorV [0, 3] [])
   = Inl (AttributeError ''repeat'')"
  by (rule projection_raises)

text \<open>
  Claim C5: for inputs whose points differ in dimension, \<open>projection\<close> fails with the
  error of the mismatched dimensions. On a source point in 3-space and a target point in
  the plane the code fails, but with the \<^verbatim>\<open>AttributeError\<close> it raises on every input,
  before the two tensors are brought together.
\<close>

theorem projection_raises_on_dimension_mismatch:
  "projection L (TensorV [1, 3] [0, 0, 0 :: real]) (TensorV [1, 2] [1, 2])
   = Inl (AttributeError ''repeat'')"
  by (rule projection_raises)



text \<open>
  Claim C10: \<open>projection\<close> takes the arg-min over the square-rooted distances, which
  selects the same position as the arg-min over the squared distances of the
  specification. The statements that would do so look up \<open>reduce_sum\<close> and \<open>to_int32\<close>,
  which the module does not have, and are never reached: for the source \<open>(0,0)\<close> and
  the targets \<open>(3,4)\<close>, \<open>(0,1)\<close> the code raises \<^verbatim>\<open>AttributeError\<close> at its third
  statement.
\<close>

theorem projection_raises_before_argmin:
  "torch_getattr ''reduce_sum'' = Inl (AttributeError ''reduce_sum'')
   \<and> torch_getattr ''to_int32'' = Inl (AttributeError ''to_int32'')
   \<and> projection L (TensorV [1, 2] [0, 0 :: real]) (TensorV [2, 2] [3, 4, 0, 1])
       = Inl (AttributeError ''repeat'')"
  by (simp add: projection_raises torch_getattr_def torch_names_def)

section \<open>The claims about the optimizer, the scheduler and the best model\<close>

text \<open>
  Claim C7. For every configuration whose optimizer name, in lower case, passes neither
  the test for \<open>adam\<close> nor the test for \<open>sgd\<close>, \<open>make_optimizer\<close> leaves \<open>opt\<close> unbound
  and fails when it reads it, instead of returning an optimizer; and for every non-empty
  scheduler name that passes none of the three tests, \<open>make_lr_scheduler\<close> leaves its
  locals unbound and fails in the same way.
\<close>

theorem unrecognized_names_unbound:
  "(\<not> py_in (lower (optim cfg)) ''adam'' \<and> \<not> py_in (lower (optim cfg)) ''sgd''
      \<longrightarrow> fst (make_optimizer fmt cfg model out) = Inl UnboundLocalError)
   \<and> (lrSched cfg = Some name \<and> name \<noteq> [] \<and> \<not> py_in (lower name) ''step''
        \<and> \<not> py_in (lower name) ''exponential'' \<and> \<not> py_in (lower name) ''cosine''
      \<longrightarrow> fst (make_lr_scheduler fmt str cfg optimizer out) = Inl UnboundLocalError)"
  by (simp add: make_optimizer_def make_lr_scheduler_def read_local_def Let_def
      split: option.splits)

theorem unrecognized_names_unbound_witness:
  "fst (make_optimizer (\<lambda>x. ''1.00e-04'')
          \<lparr>optim = ''RMSprop'', lr = 1 / 10000, wd = 0, trueWD = None,
           lrSched = Some ''plateau'', lrStep = 10, lrGamma = 1 / 2, TMax = 100, etaMin = 0\<rparr>
          \<lparr>parameters = [1 :: nat, 2], state_dict = [0 :: nat]\<rparr> []) = Inl UnboundLocalError
   \<and> fst (make_lr_scheduler (\<lambda>x. ''1.00e-04'') (\<lambda>k. ''10'')
          \<lparr>optim = ''RMSprop'', lr = 1 / 10000, wd = 0, trueWD = None,
           lrSched = Some ''plateau'', lrStep = 10, lrGamma = 1 / 2, TMax = 100, etaMin = 0\<rparr>
          (Adam [1 :: nat, 2] (1 / 10000) 0) []) = Inl UnboundLocalError"
  using unrecognized_names_unbound
    [of "\<lparr>optim = ''RMSprop'', lr = 1 / 10000, wd = 0, trueWD = None,
          lrSched = Some ''plateau'', lrStep = 10, lrGamma = 1 / 2, TMax = 100, etaMin = 0\<rparr>"
        "\<lambda>x. ''1.00e-04''" "\<lparr>parameters = [1 :: nat, 2], state_dict = [0 :: nat]\<rparr>" "[]"
        "''plateau''" "\<lambda>k. ''10''" "Adam [1 :: nat, 2] (1 / 10000) 0"]
  by (simp add: lower_def)

text \<open>
  Claim C8, as amended. For the scheduler names \<open>step\<close>, \<open>exponential\<close> and \<open>cosine\<close>,
  \<open>make_lr_scheduler\<close> returns a \<open>StepLR\<close>, an \<open>ExponentialLR\<close> and a
  \<open>CosineAnnealingLR\<close> built from the configuration; for no scheduler name (\<open>None\<close>, or
  the empty string) it returns no scheduler and prints nothing. None of these raises.
\<close>

theorem make_lr_scheduler_recognized:
  "(lrSched cfg = Some ''step''
      \<longrightarrow> fst (make_lr_scheduler fmt str cfg optimizer out)
            = Inr (Some (StepLR optimizer (lrStep cfg) (lrGamma cfg))))
   \<and> (lrSched cfg = Some ''exponential''
      \<longrightarrow> fst (make_lr_scheduler fmt str cfg optimizer out)
            = Inr (Some (ExponentialLR optimizer (lrGamma cfg))))
   \<and> (lrSched cfg = Some ''cosine''
      \<longrightarrow> fst (make_lr_scheduler fmt str cfg optimizer out)
            = Inr (Some (CosineAnnealingLR optimizer (TMax cfg) (etaMin cfg))))
   \<and> (lrSched cfg = None \<or> lrSched cfg = Some ''''
      \<longrightarrow> make_lr_scheduler fmt str cfg optimizer out = (Inr None, out))"
  by (auto simp: make_lr_scheduler_def read_local_def lower_def)

theorem make_lr_scheduler_recognized_witness:
  "fst (make_lr_scheduler (\<lambda>x. ''5.00e-01'') (\<lambda>k. ''10'')
          \<lparr>optim = ''adam'', lr = 1 / 10000, wd = 0, trueWD = None,
           lrSched = Some ''cosine'', lrStep = 10, lrGamma = 1 / 2, TMax = 100, etaMin = 0\<rparr>
          (Adam [1 :: nat, 2] (1 / 10000) 0) [])
     = Inr (Some (CosineAnnealingLR (Adam [1 :: nat, 2] (1 / 10000) 0) 100 0))"
  using make_lr_scheduler_recognized
    [of "\<lparr>optim = ''adam'', lr = 1 / 10000, wd = 0, trueWD = None,
          lrSched = Some ''cosine'', lrStep = 10, lrGamma = 1 / 2, TMax = 100, etaMin = 0\<rparr>"
        "\<lambda>x. ''5.00e-01''" "\<lambda>k. ''10''" "Adam [1 :: nat, 2] (1 / 10000) 0" "[]"]
  by simp

text \<open>
  The claim as stated fails for the string \<open>none\<close>: it is not empty and passes none of
  the three tests, so the function raises instead of returning no scheduler.
\<close>

theorem make_lr_scheduler_recognized_counterexample:
  "fst (make_lr_scheduler (\<lambda>x. ''5.00e-01'') (\<lambda>k. ''10'')
          \<lparr>optim = ''adam'', lr = 1 / 10000, wd = 0, trueWD = None,
           lrSched = Some ''none'', lrStep = 10, lrGamma = 1 / 2, TMax = 100, etaMin = 0\<rparr>
          (Adam [1 :: nat, 2] (1 / 10000) 0) []) = Inl UnboundLocalError"
  by (simp add: make_lr_scheduler_def read_local_def lower_def)

text \<open>
  Claim C9, as amended. For every non-empty history of validation losses,
  \<open>save_best_model\<close> saves the weights to \<open>best.pth\<close> under the model path if and only
  if the most recent validation loss is a number and is less than or equal to every
  earlier validation loss that is a number; otherwise it writes no file. On a history
  without not-a-number entries that is: if and only if the most recent loss is less than
  or equal to every earlier one.
\<close>

theorem save_best_model_running_minimum:
  assumes "val_loss h \<noteq> []"
  shows "save_best_model save model_path model h fs =
           (if \<exists>a. last (val_loss h) = Num a
                  \<and> (\<forall>b. Num b \<in> set (butlast (val_loss h)) \<longrightarrow> a \<le> b)
            then save fs (state_dict model) (model_path @ ''/best.pth'')
            else Inr fs)
         \<and> (NaN \<notin> set (val_loss h) \<longrightarrow>
              save_best_model save model_path model h fs =
                (if \<forall>x\<in>set (butlast (val_loss h)). float_le (last (val_loss h)) x
                 then save fs (state_dict model) (model_path @ ''/best.pth'')
                 else Inr fs))"
proof -
  let ?xs = "val_loss h"
  let ?snapshot = "save fs (state_dict model) (model_path @ ''/best.pth'')"
  let ?best = "\<exists>a. last ?xs = Num a \<and> (\<forall>b. Num b \<in> set (butlast ?xs) \<longrightarrow> a \<le> b)"
  from assms obtain y ys where ys: "?xs = y # ys" by (cases ?xs) auto
  have code: "save_best_model save model_path model h fs =
                (if float_le (last ?xs) (series_min ?xs) then ?snapshot else Inr fs)"
    by (simp add: save_best_model_def ys torch_has_save ebind_Inr del: last.simps)
  have cond: "float_le (last ?xs) (series_min ?xs) \<longleftrightarrow> ?best"
  proof (cases "last ?xs")
    case NaN
    then show ?thesis by simp
  next
    case (Num a)
    with float_le_series_min [OF assms Num] show ?thesis by simp
  qed
  have first: "save_best_model save model_path model h fs = (if ?best then ?snapshot else Inr fs)"
    using code cond by simp
  have "?best \<longleftrightarrow> (\<forall>x\<in>set (butlast ?xs). float_le (last ?xs) x)" if nn: "NaN \<notin> set ?xs"
  proof -
    have "last ?xs \<in> set ?xs" using assms by simp
    with nn obtain a where a: "last ?xs = Num a" by (cases "last ?xs") auto
    have sub: "set (butlast ?xs) \<subseteq> set ?xs" by (auto dest: in_set_butlastD)
    have "(\<forall>x\<in>set (butlast ?xs). float_le (Num a) x)
        \<longleftrightarrow> (\<forall>b. Num b \<in> set (butlast ?xs) \<longrightarrow> a \<le> b)"
    proof (intro iffI ballI allI impI)
      fix b assume "\<forall>x\<in>set (butlast ?xs). float_le (Num a) x" "Num b \<in> set (butlast ?xs)"
      then have "float_le (Num a) (Num b)" by blast
      then show "a \<le> b" by simp
    next
      fix x assume all: "\<forall>b. Num b \<in> set (butlast ?xs) \<longrightarrow> a \<le> b" and x: "x \<in> set (butlast ?xs)"
      from x sub nn have "x \<noteq> NaN" by blast
      then obtain b where b: "x = Num b" by (cases x) auto
      with all x have "a \<le> b" by blast
      with b show "float_le (Num a) x" by simp
    qed
    with a show ?thesis by simp
  qed
  with first show ?thesis by simp
qed

theorem save_best_model_running_minimum_witness:
  "val_loss \<lparr>val_loss = [Num 3, Num 2, Num (2 :: real)]\<rparr> \<noteq> []
   \<and> save_best_model write_file ''models/run'' \<lparr>parameters = [1 :: nat], state_dict = [7 :: nat]\<rparr>
       \<lparr>val_loss = [Num 3, Num 2, Num (2 :: real)]\<rparr> [] = Inr [(''models/run/best.pth'', [7])]
   \<and> val_loss \<lparr>val_loss = [Num 2, Num (3 :: real)]\<rparr> \<noteq> []
   \<and> save_best_model write_file ''models/run'' \<lparr>parameters = [1 :: nat], state_dict = [7 :: nat]\<rparr>
       \<lparr>val_loss = [Num 2, Num (3 :: real)]\<rparr> [] = Inr []"
  using save_best_model_running_minimum
    [of "\<lparr>val_loss = [Num 3, Num 2, Num (2 :: real)]\<rparr>" write_file "''models/run''"
        "\<lparr>parameters = [1 :: nat], state_dict = [7 :: nat]\<rparr>" "[]"]
    save_best_model_running_minimum
    [of "\<lparr>val_loss = [Num 2, Num (3 :: real)]\<rparr>" write_file "''models/run''"
        "\<lparr>parameters = [1 :: nat], state_dict = [7 :: nat]\<rparr>" "[]"]
  by (simp add: write_file_def)

text \<open>
  The claim as stated fails on histories with not-a-number entries. The one-entry
  history \<open>[nan]\<close> has no earlier loss, yet nothing is written; and on \<open>[nan, 1.0]\<close> the
  weights are written, although \<open>1.0 <= nan\<close> does not hold.
\<close>

theorem save_best_model_running_minimum_counterexample:
  "save_best_model write_file ''models/run'' \<lparr>parameters = [1 :: nat], state_dict = [7 :: nat]\<rparr>
       \<lparr>val_loss = [NaN :: real float]\<rparr> [] = Inr []
   \<and> save_best_model write_file ''models/run'' \<lparr>parameters = [1 :: nat], state_dict = [7 :: nat]\<rparr>
       \<lparr>val_loss = [NaN, Num (1 :: real)]\<rparr> [] = Inr [(''models/run/best.pth'', [7])]
   \<and> \<not> float_le (Num (1 :: real)) NaN"
  by (simp add: save_best_model_def series_min_def torch_has_save ebind_Inr write_file_def)

end
